theory Spec2Isabelle
  imports Complex_Main "HOL-Library.Sublist"
begin

section \<open>Numbers and rounding\<close>

text \<open>
  Python floats are idealised as exact rationals: every division and subtraction of the
  source is the exact one. The built-in \<^verbatim>\<open>round(x, 2)\<close> rounds to the nearest
  multiple of 1/100 and breaks a tie towards the even neighbour.
\<close>

type_synonym pyfloat = rat

definition py_round :: "rat \<Rightarrow> int" where
  "py_round q =
     (let f = \<lfloor>q\<rfloor>; d = q - of_int f
      in if d < 1 / 2 then f
         else if 1 / 2 < d then f + 1
         else if even f then f else f + 1)"

definition round2 :: "pyfloat \<Rightarrow> pyfloat" where
  "round2 x = of_int (py_round (x * 100)) / 100"

section \<open>Metrics (core/stats\_calculator.py)\<close>

text \<open>
  \<^verbatim>\<open>typed[i] if i < len(typed) else ""\<close>: a one-character string, or the empty
  string past the end of the word.
\<close>

definition char_or_empty :: "string \<Rightarrow> nat \<Rightarrow> string" where
  "char_or_empty w i = (if i < length w then [w ! i] else [])"

text \<open>The inner loop \<^verbatim>\<open>for i in range(max_len)\<close>, with the running counter.\<close>

fun count_word_errors :: "string \<Rightarrow> string \<Rightarrow> nat list \<Rightarrow> nat \<Rightarrow> nat" where
  "count_word_errors typed target [] errs = errs"
| "count_word_errors typed target (i # rest) errs =
     count_word_errors typed target rest
       (if char_or_empty typed i \<noteq> char_or_empty target i then errs + 1 else errs)"

text \<open>The outer loop \<^verbatim>\<open>for typed, target in zip(typed_words, target_words)\<close>.\<close>

fun count_uncorrected_errors :: "(string \<times> string) list \<Rightarrow> nat \<Rightarrow> nat" where
  "count_uncorrected_errors [] errs = errs"
| "count_uncorrected_errors ((typed, target) # pairs) errs =
     count_uncorrected_errors pairs
       (count_word_errors typed target [0..<max (length typed) (length target)] errs)"

definition calculate_wpm :: "string list \<Rightarrow> string list \<Rightarrow> pyfloat \<Rightarrow> pyfloat" where
  "calculate_wpm typed_words target_words elapsed_time_seconds =
     (if elapsed_time_seconds = 0 then 0
      else
        let uncorrected_errors = count_uncorrected_errors (zip typed_words target_words) 0;
            total_chars = sum_list (map length typed_words);
            total_chars = (if 1 < length typed_words
                           then total_chars + (length typed_words - 1) else total_chars);
            minutes = elapsed_time_seconds / 60;
            net_wpm = (of_int (int total_chars - int uncorrected_errors) / 5) / minutes
        in round2 (max net_wpm 0))"

definition calculate_accuracy :: "string list \<Rightarrow> string list \<Rightarrow> int \<Rightarrow> pyfloat" where
  "calculate_accuracy typed_words target_words typo_count =
     (if typed_words = [] \<or> target_words = [] then 0
      else
        let total_chars_typed = int (sum_list (map length typed_words))
        in if total_chars_typed = 0 then 0
           else
             let effective_typos = min typo_count total_chars_typed;
                 accuracy =
                   (of_int (total_chars_typed - effective_typos) / of_int total_chars_typed) * 100
             in round2 accuracy)"

subsection \<open>The metrics as the specification words them\<close>





section \<open>Results (domain/models/game\_result.py)\<close>

text \<open>
  A \<^verbatim>\<open>datetime\<close> of the standard library: the wall-clock fields and the time zone,
  which is absent for a naive value and otherwise the offset from UTC in seconds
  (\<^verbatim>\<open>timezone.utc\<close> is offset 0).
\<close>

record datetime =
  year :: nat
  month :: nat
  day :: nat
  hour :: nat
  minute :: nat
  second :: nat
  microsecond :: nat
  tzinfo :: "int option"

definition timezone_utc :: "int option" where
  "timezone_utc = Some 0"

record GameResult =
  wpm :: pyfloat
  accuracy :: pyfloat
  duration :: pyfloat
  game_type :: string
  timestamp :: datetime
  total_characters :: int
  correct_characters :: int
  error_count :: int
  is_new_record :: bool
  previous_best :: "pyfloat option"

section \<open>Sessions (games/base\_game.py)\<close>

datatype GameStatus = NOT_STARTED | READY | ACTIVE | COMPLETED | CANCELLED

record BaseGame =
  name :: string
  description :: string
  status :: GameStatus
  result :: "GameResult option"
  target_words :: "string list"
  typed_words :: "string list"
  current_word_index :: nat
  start_time :: pyfloat
  end_time :: pyfloat
  error_count :: int
  current_input :: string
  previous_input :: string

text \<open>\<^verbatim>\<open>BaseGame.__init__\<close>.\<close>

definition init_game :: "string \<Rightarrow> string \<Rightarrow> BaseGame" where
  "init_game nm descr =
     \<lparr>name = nm, description = descr, status = NOT_STARTED, result = None,
      target_words = [], typed_words = [], current_word_index = 0,
      start_time = 0, end_time = 0, error_count = 0,
      current_input = [], previous_input = []\<rparr>"

definition cancel :: "BaseGame \<Rightarrow> BaseGame" where
  "cancel self = self\<lparr>status := CANCELLED, result := None\<rparr>"

definition is_finished :: "BaseGame \<Rightarrow> bool" where
  "is_finished self = (status self \<in> set [COMPLETED, CANCELLED])"

definition reset_state :: "BaseGame \<Rightarrow> BaseGame" where
  "reset_state self =
     self\<lparr>typed_words := [], current_word_index := 0, start_time := 0, end_time := 0,
          error_count := 0, current_input := [], previous_input := [], result := None\<rparr>"

text \<open>
  What \<^verbatim>\<open>process_input\<close> returns: the dictionary with its \<^verbatim>\<open>"status"\<close> entry
  and the other entries of each return statement.
\<close>

datatype response =
    Inactive
  | Complete
  | WordCompleted nat nat
  | Partial string nat

fun response_status :: "response \<Rightarrow> string" where
  "response_status Inactive = ''inactive''"
| "response_status Complete = ''complete''"
| "response_status (WordCompleted idx n) = ''active''"
| "response_status (Partial inp idx) = ''active''"

text \<open>\<^verbatim>\<open>while len(self.typed_words) <= self.current_word_index: append("")\<close>.\<close>

function ensure_slot :: "string list \<Rightarrow> nat \<Rightarrow> string list" where
  "ensure_slot tw idx = (if length tw \<le> idx then ensure_slot (tw @ [[]]) idx else tw)"
  by pat_completeness auto
termination
  by (relation "measure (\<lambda>(tw, idx). Suc idx - length tw)") auto

text \<open>\<^verbatim>\<open>while len(self.typed_words) < len(self.target_words): append("")\<close>.\<close>

function back_fill :: "string list \<Rightarrow> nat \<Rightarrow> string list" where
  "back_fill tw n = (if length tw < n then back_fill (tw @ [[]]) n else tw)"
  by pat_completeness auto
termination
  by (relation "measure (\<lambda>(tw, n). n - length tw)") auto

declare ensure_slot.simps [simp del]
declare back_fill.simps [simp del]

definition process_complete_word :: "BaseGame \<Rightarrow> string \<Rightarrow> response \<times> BaseGame" where
  "process_complete_word self word =
     (if length (target_words self) \<le> current_word_index self
      then (Complete, self\<lparr>status := COMPLETED\<rparr>)
      else
        let self = self\<lparr>typed_words := ensure_slot (typed_words self) (current_word_index self)\<rparr>;
            self = self\<lparr>typed_words := (typed_words self)[current_word_index self := word]\<rparr>;
            self = self\<lparr>current_word_index := current_word_index self + 1\<rparr>;
            self = self\<lparr>current_input := [], previous_input := []\<rparr>
        in if length (target_words self) \<le> current_word_index self
           then (Complete,
                 self\<lparr>status := COMPLETED,
                      typed_words := back_fill (typed_words self) (length (target_words self))\<rparr>)
           else (WordCompleted (current_word_index self) (length (target_words self)), self))"

definition process_partial_input :: "BaseGame \<Rightarrow> string \<Rightarrow> response \<times> BaseGame" where
  "process_partial_input self input_text =
     (let self =
            (if current_word_index self < length (target_words self)
             then
               let target_word = target_words self ! current_word_index self
               in if input_text \<noteq> []
                     \<and> length (previous_input self) < length input_text
                     \<and> \<not> prefix input_text target_word
                  then self\<lparr>error_count := error_count self + 1\<rparr>
                  else self
             else self);
          self = self\<lparr>previous_input := input_text, current_input := input_text\<rparr>;
          self = self\<lparr>typed_words := ensure_slot (typed_words self) (current_word_index self)\<rparr>;
          self = self\<lparr>typed_words := (typed_words self)[current_word_index self := input_text]\<rparr>
      in (Partial input_text (current_word_index self), self))"

text \<open>
  \<^verbatim>\<open>process_input\<close>; \<open>now\<close> is what \<^verbatim>\<open>time.time()\<close> reads if the call starts
  the timer.
\<close>

definition process_input :: "pyfloat \<Rightarrow> BaseGame \<Rightarrow> string \<Rightarrow> bool \<Rightarrow> response \<times> BaseGame" where
  "process_input now self input_text is_complete_input =
     (let self = (if start_time self = 0 \<and> input_text \<noteq> []
                  then self\<lparr>status := ACTIVE, start_time := now\<rparr> else self)
      in if status self \<noteq> ACTIVE then (Inactive, self)
         else if is_complete_input then process_complete_word self input_text
         else process_partial_input self input_text)"

text \<open>
  \<^verbatim>\<open>finish\<close>; \<open>now\<close> is the reading of \<^verbatim>\<open>time.time()\<close> and \<open>stamp\<close> that of
  \<^verbatim>\<open>datetime.now(tz=timezone.utc)\<close>.
\<close>

definition finish :: "pyfloat \<Rightarrow> datetime \<Rightarrow> BaseGame \<Rightarrow> GameResult \<times> BaseGame" where
  "finish now stamp self =
     (let self = (if status self \<noteq> COMPLETED then self\<lparr>status := COMPLETED\<rparr> else self);
          self = self\<lparr>end_time := now\<rparr>;
          elapsed_time = (if 0 < start_time self then end_time self - start_time self else 0);
          completed_typed = take (current_word_index self) (typed_words self);
          completed_target = take (current_word_index self) (target_words self);
          res = \<lparr>wpm = calculate_wpm completed_typed completed_target elapsed_time,
                 accuracy = calculate_accuracy completed_typed completed_target (error_count self),
                 duration = elapsed_time,
                 game_type = name self,
                 timestamp = stamp,
                 total_characters = int (sum_list (map length completed_target)),
                 correct_characters =
                   int (sum_list (map (\<lambda>(typed, target). length typed)
                          (filter (\<lambda>(typed, target). typed = target)
                             (zip completed_typed completed_target)))),
                 error_count = error_count self,
                 is_new_record = False,
                 previous_best = None\<rparr>
      in (res, self\<lparr>result := Some res\<rparr>))"

text \<open>The elapsed time \<^verbatim>\<open>finish\<close> computes, as a function of the clock reading.\<close>

definition finish_elapsed :: "pyfloat \<Rightarrow> BaseGame \<Rightarrow> pyfloat" where
  "finish_elapsed now s = (if 0 < start_time s then now - start_time s else 0)"

section \<open>The phrase variant (games/phrase\_typing\_game.py)\<close>

text \<open>
  The constructor, \<^verbatim>\<open>initialize\<close> and \<^verbatim>\<open>start\<close> of \<^verbatim>\<open>PhraseTypingGame\<close>;
  \<open>phrase_words\<close> is what \<^verbatim>\<open>get_random_phrase().split()\<close> returns.
\<close>

definition phrase_game_new :: BaseGame where
  "phrase_game_new = init_game ''Phrase Typing''
     ''Type complete phrases and quotes to improve your typing flow''"

definition phrase_initialize :: "BaseGame \<Rightarrow> bool \<times> BaseGame" where
  "phrase_initialize self = (True, self\<lparr>status := READY\<rparr>)"

definition phrase_start :: "string list \<Rightarrow> BaseGame \<Rightarrow> bool \<times> BaseGame" where
  "phrase_start phrase_words self =
     (if status self \<noteq> READY then (False, self)
      else
        let self = self\<lparr>target_words := phrase_words\<rparr>;
            self = reset_state self;
            self = self\<lparr>status := READY\<rparr>
        in (True, self))"

text \<open>A phrase session as the router installs it: constructed, initialized, started.\<close>

definition started_phrase_game :: "string list \<Rightarrow> BaseGame" where
  "started_phrase_game phrase_words =
     snd (phrase_start phrase_words (snd (phrase_initialize phrase_game_new)))"

section \<open>History stores (domain/history\_repository.py)\<close>

datatype py_error = AttributeError | TypeError | ValueError | UnicodeDecodeError

text \<open>
  The abstract \<^verbatim>\<open>HistoryRepository\<close>: the two methods the router calls, over a store
  state \<open>'h\<close>. A method returns the exception it raises, or its value with the store as
  the call leaves it.
\<close>

record 'h HistoryRepository =
  get_best :: "'h \<Rightarrow> py_error + (GameResult option \<times> 'h)"
  save :: "GameResult \<Rightarrow> 'h \<Rightarrow> py_error + 'h"

text \<open>
  \<^verbatim>\<open>max(results, key=lambda r: r.wpm)\<close>: the scan keeps the first result of maximal
  wpm, replacing its candidate only by a strictly greater one.
\<close>

fun max_by_wpm :: "GameResult \<Rightarrow> GameResult list \<Rightarrow> GameResult" where
  "max_by_wpm best [] = best"
| "max_by_wpm best (r # rs) = max_by_wpm (if wpm best < wpm r then r else best) rs"

definition best_of :: "GameResult list \<Rightarrow> GameResult option" where
  "best_of results = (case results of [] \<Rightarrow> None | r # rs \<Rightarrow> Some (max_by_wpm r rs))"

subsection \<open>infrastructure/persistence/memory\_history\_repository.py\<close>

definition memory_save :: "GameResult \<Rightarrow> GameResult list \<Rightarrow> GameResult list" where
  "memory_save res results = results @ [res]"

definition memory_get_best :: "GameResult list \<Rightarrow> GameResult option" where
  "memory_get_best results = best_of results"

definition InMemoryHistoryRepository :: "GameResult list HistoryRepository" where
  "InMemoryHistoryRepository =
     \<lparr>get_best = (\<lambda>results. Inr (memory_get_best results, results)),
      save = (\<lambda>res results. Inr (memory_save res results))\<rparr>"

section \<open>The router (application/application\_router.py)\<close>

text \<open>The class names of \<^verbatim>\<open>_GAME_CLASSES\<close>, one entry of \<^verbatim>\<open>AVAILABLE_GAMES\<close> each.\<close>

definition AVAILABLE_GAMES :: "string list" where
  "AVAILABLE_GAMES = [''RandomWordsGame'', ''PhraseTypingGame'']"

record 'h ApplicationRouter =
  history_repository :: 'h
  current_game :: "BaseGame option"
  selected_game_index :: int

definition init_router :: "'h \<Rightarrow> 'h ApplicationRouter" where
  "init_router repo = \<lparr>history_repository = repo, current_game = None, selected_game_index = 0\<rparr>"

definition select_game :: "'h ApplicationRouter \<Rightarrow> int \<Rightarrow> bool \<times> 'h ApplicationRouter" where
  "select_game self index =
     (if 0 \<le> index \<and> index < int (length AVAILABLE_GAMES)
      then (True, self\<lparr>selected_game_index := index\<rparr>)
      else (False, self))"

definition navigate_game_selection :: "'h ApplicationRouter \<Rightarrow> int \<Rightarrow> 'h ApplicationRouter" where
  "navigate_game_selection self direction =
     (let n = int (length AVAILABLE_GAMES)
      in self\<lparr>selected_game_index := (selected_game_index self + direction) mod n\<rparr>)"

definition return_to_main_menu :: "'h ApplicationRouter \<Rightarrow> 'h ApplicationRouter" where
  "return_to_main_menu self =
     (let self = (case current_game self of
                    None \<Rightarrow> self
                  | Some game \<Rightarrow>
                      (let game = (if \<not> is_finished game then cancel game else game)
                       in self\<lparr>current_game := None\<rparr>))
      in self\<lparr>selected_game_index := 0\<rparr>)"

definition cancel_game :: "'h ApplicationRouter \<Rightarrow> bool \<times> 'h ApplicationRouter" where
  "cancel_game self =
     (case current_game self of
        None \<Rightarrow> (False, self)
      | Some game \<Rightarrow> (True, self\<lparr>current_game := None\<rparr>))"

definition process_game_input ::
  "pyfloat \<Rightarrow> 'h ApplicationRouter \<Rightarrow> string \<Rightarrow> bool \<Rightarrow> bool \<times> 'h ApplicationRouter" where
  "process_game_input now self input_text is_complete =
     (case current_game self of
        None \<Rightarrow> (False, self)
      | Some game \<Rightarrow>
          (let (res, game) = process_input now game input_text is_complete
           in (response_status res \<noteq> ''error'', self\<lparr>current_game := Some game\<rparr>)))"

text \<open>
  \<^verbatim>\<open>finish_game\<close>, for a store with the methods \<open>repo\<close>; \<open>now\<close> and \<open>stamp\<close> are the
  clock readings of \<^verbatim>\<open>finish\<close>.
\<close>

definition finish_game ::
  "'h HistoryRepository \<Rightarrow> pyfloat \<Rightarrow> datetime \<Rightarrow> 'h ApplicationRouter
     \<Rightarrow> py_error + (GameResult option \<times> 'h ApplicationRouter)" where
  "finish_game repo now stamp self =
     (case current_game self of
        None \<Rightarrow> Inr (None, self)
      | Some game \<Rightarrow>
          (let (res, game) = finish now stamp game;
               self = self\<lparr>current_game := Some game\<rparr>
           in case get_best repo (history_repository self) of
                Inl e \<Rightarrow> Inl e
              | Inr (best, h) \<Rightarrow>
                  (let self = self\<lparr>history_repository := h\<rparr>;
                       res = res\<lparr>is_new_record :=
                                   (0 < wpm res
                                    \<and> (case best of None \<Rightarrow> True | Some b \<Rightarrow> wpm b < wpm res)),
                                 previous_best :=
                                   (case best of Some b \<Rightarrow> Some (wpm b) | None \<Rightarrow> None)\<rparr>
                   in case save repo res (history_repository self) of
                        Inl e \<Rightarrow> Inl e
                      | Inr h \<Rightarrow> Inr (Some res, self\<lparr>history_repository := h\<rparr>))))"

text \<open>The selection operations of the router, to speak of their sequences.\<close>

datatype selection_op = Select int | Navigate int | ReturnToMainMenu

fun apply_selection_op :: "'h ApplicationRouter \<Rightarrow> selection_op \<Rightarrow> 'h ApplicationRouter" where
  "apply_selection_op self (Select index) = snd (select_game self index)"
| "apply_selection_op self (Navigate direction) = navigate_game_selection self direction"
| "apply_selection_op self ReturnToMainMenu = return_to_main_menu self"

definition selection_in_range :: "'h ApplicationRouter \<Rightarrow> bool" where
  "selection_in_range self =
     (0 \<le> selected_game_index self \<and> selected_game_index self < int (length AVAILABLE_GAMES))"

section \<open>Properties of the metrics\<close>













section \<open>Properties of sessions\<close>

lemma ensure_slot_eq: "ensure_slot tw idx = tw @ replicate (Suc idx - length tw) []"
proof (induction tw idx rule: ensure_slot.induct)
  case (1 tw idx)
  show ?case
  proof (cases "length tw \<le> idx")
    case True
    then have "Suc idx - length tw = Suc (idx - length tw)" by simp
    with True 1 show ?thesis
      by (subst ensure_slot.simps) (simp add: replicate_app_Cons_same)
  next
    case False
    then show ?thesis by (subst ensure_slot.simps) simp
  qed
qed

lemma back_fill_eq: "back_fill tw n = tw @ replicate (n - length tw) []"
proof (induction tw n rule: back_fill.induct)
  case (1 tw n)
  show ?case
  proof (cases "length tw < n")
    case True
    then have "n - length tw = Suc (n - Suc (length tw))" by simp
    with True 1 show ?thesis
      by (subst back_fill.simps) (simp add: replicate_app_Cons_same)
  next
    case False
    then show ?thesis by (subst back_fill.simps) simp
  qed
qed

text \<open>
  C2. For every session in ACTIVE status, a complete submission with the cursor before
  the end of the target words writes the word verbatim into the slot at the cursor,
  advances the cursor by one and resets the partial-input trackers; when the cursor
  thereby reaches the end the status becomes COMPLETED and the typed words are as many as
  the target words (for a session that held at most one slot per target token); when
  the cursor had already reached the end, no slot is written and the session is marked
  COMPLETED.
\<close>

theorem process_complete_word_commit:
  assumes "status s = ACTIVE"
  shows
  "(current_word_index s < length (target_words s) \<longrightarrow>
     (let s' = snd (process_input now s word True) in
        typed_words s' =
          (typed_words s @ replicate (Suc (current_word_index s) - length (typed_words s)) [])
            [current_word_index s := word]
      \<and> typed_words s' ! current_word_index s = word
      \<and> current_word_index s' = current_word_index s + 1
      \<and> current_input s' = [] \<and> previous_input s' = []
      \<and> target_words s' = target_words s
      \<and> (Suc (current_word_index s) < length (target_words s) \<longrightarrow> status s' = ACTIVE)
      \<and> (Suc (current_word_index s) = length (target_words s) \<longrightarrow>
            status s' = COMPLETED
          \<and> fst (process_input now s word True) = Complete
          \<and> (length (typed_words s) \<le> length (target_words s) \<longrightarrow>
               length (typed_words s') = length (target_words s')))))
   \<and> (length (target_words s) \<le> current_word_index s \<longrightarrow>
        (let s' = snd (process_input now s word True) in
           typed_words s' = typed_words s \<and> status s' = COMPLETED
         \<and> current_word_index s' = current_word_index s
         \<and> fst (process_input now s word True) = Complete))"
  using assms
  by (auto simp: process_input_def process_complete_word_def Let_def ensure_slot_eq back_fill_eq nth_append)

theorem process_complete_word_commit_witness:
  "status (snd (process_input 100 (started_phrase_game [''ab'']) ''a'' False)) = ACTIVE
   \<and> current_word_index (snd (process_input 100 (started_phrase_game [''ab'']) ''a'' False))
       < length (target_words (snd (process_input 100 (started_phrase_game [''ab'']) ''a'' False)))
   \<and> length (typed_words (snd (process_input 100 (started_phrase_game [''ab'']) ''a'' False)))
       \<le> length (target_words (snd (process_input 100 (started_phrase_game [''ab'']) ''a'' False)))
   \<and> typed_words (snd (process_input 101
         (snd (process_input 100 (started_phrase_game [''ab'']) ''a'' False)) ''xy'' True)) = [''xy'']
   \<and> status (snd (process_input 101
         (snd (process_input 100 (started_phrase_game [''ab'']) ''a'' False)) ''xy'' True)) = COMPLETED"
proof -
  define s where "s = snd (process_input 100 (started_phrase_game [''ab'']) ''a'' False)"
  have facts: "status s = ACTIVE" "current_word_index s = 0" "target_words s = [''ab'']"
    "typed_words s = [''a'']"
    unfolding s_def by code_simp+
  show ?thesis
    using process_complete_word_commit [OF facts(1), of 101 "''xy''"] facts
    unfolding s_def [symmetric] by (simp add: Let_def)
qed

text \<open>
  The precondition of the length equation in C2 holds in every session the operations
  produce: while the cursor is before the end, the typed words are never more than the
  target words.
\<close>

lemma typed_words_bounded_preserved:
  assumes "current_word_index s < length (target_words s) \<longrightarrow>
             length (typed_words s) \<le> length (target_words s)"
  shows "current_word_index (snd (process_input now s inp c))
           < length (target_words (snd (process_input now s inp c))) \<longrightarrow>
         length (typed_words (snd (process_input now s inp c)))
           \<le> length (target_words (snd (process_input now s inp c)))"
  using assms
  by (auto simp: process_input_def process_complete_word_def process_partial_input_def
      Let_def ensure_slot_eq back_fill_eq)

text \<open>
  C3. The error counter never decreases across calls of \<open>process_input\<close>; a partial-input
  call that the session accepts raises it, by exactly one, if and only if there is a
  current target token, the input is non-empty, strictly longer than the previous partial
  input, and not a prefix of the current target token; an input that is not longer than
  the previous one never changes it.
\<close>

theorem error_count_partial_input:
  "error_count s \<le> error_count (snd (process_input now s inp c))
   \<and> error_count (snd (process_input now s inp False)) =
       error_count s +
       (if (status s = ACTIVE \<or> (start_time s = 0 \<and> inp \<noteq> []))
           \<and> current_word_index s < length (target_words s)
           \<and> inp \<noteq> []
           \<and> length (previous_input s) < length inp
           \<and> \<not> prefix inp (target_words s ! current_word_index s)
        then 1 else 0)
   \<and> (length inp \<le> length (previous_input s) \<longrightarrow>
        error_count (snd (process_input now s inp False)) = error_count s)"
  by (auto simp: process_input_def process_complete_word_def process_partial_input_def Let_def)

theorem error_count_partial_input_witness:
  "length ''a'' \<le> length (previous_input
       (snd (process_input 100 (started_phrase_game [''ab'']) ''ax'' False)))
   \<and> error_count (snd (process_input 100 (started_phrase_game [''ab'']) ''ax'' False)) = 1
   \<and> error_count (snd (process_input 101
        (snd (process_input 100 (started_phrase_game [''ab'']) ''ax'' False)) ''a'' False)) = 1"
proof -
  define s where "s = snd (process_input 100 (started_phrase_game [''ab'']) ''ax'' False)"
  have facts: "previous_input s = ''ax''" "error_count s = 1"
    unfolding s_def by code_simp+
  show ?thesis
    using error_count_partial_input [of s 101 "''a''" False] facts
    unfolding s_def [symmetric] by simp
qed

lemma force_completed:
  "(if status s \<noteq> COMPLETED then s\<lparr>status := COMPLETED\<rparr> else s) = s\<lparr>status := COMPLETED\<rparr>"
  by (cases "status s = COMPLETED") simp_all

lemma finish_fst:
  "fst (finish now stamp s) =
     \<lparr>wpm = calculate_wpm (take (current_word_index s) (typed_words s))
              (take (current_word_index s) (target_words s)) (finish_elapsed now s),
      accuracy = calculate_accuracy (take (current_word_index s) (typed_words s))
              (take (current_word_index s) (target_words s)) (error_count s),
      duration = finish_elapsed now s,
      game_type = name s,
      timestamp = stamp,
      total_characters = int (sum_list (map length (take (current_word_index s) (target_words s)))),
      correct_characters =
        int (sum_list (map (\<lambda>(typed, target). length typed)
               (filter (\<lambda>(typed, target). typed = target)
                  (zip (take (current_word_index s) (typed_words s))
                       (take (current_word_index s) (target_words s)))))),
      error_count = error_count s,
      is_new_record = False,
      previous_best = None\<rparr>"
  unfolding finish_def force_completed finish_elapsed_def Let_def by simp

lemma finish_snd:
  "snd (finish now stamp s) =
     s\<lparr>status := COMPLETED, end_time := now, result := Some (fst (finish now stamp s))\<rparr>"
  unfolding finish_def force_completed Let_def by simp

lemma finish_elapsed_again:
  "finish_elapsed now (s\<lparr>status := st, end_time := e, result := r\<rparr>) = finish_elapsed now s"
  by (simp add: finish_elapsed_def)

lemma finish_fst_again:
  "fst (finish now stamp (s\<lparr>status := st, end_time := e, result := x\<rparr>)) = fst (finish now stamp s)"
  by (simp add: finish_fst finish_elapsed_again)

lemma finish_same_clock:
  "finish now stamp (snd (finish now stamp s)) = finish now stamp s"
proof -
  have r: "fst (finish now stamp (snd (finish now stamp s))) = fst (finish now stamp s)"
    by (subst finish_snd) (rule finish_fst_again)
  have "snd (finish now stamp (snd (finish now stamp s))) = snd (finish now stamp s)"
    by (subst finish_snd) (simp add: finish_snd finish_fst_again)
  with r show ?thesis by (simp add: prod_eq_iff)
qed

text \<open>
  C5 (amended). A second call of \<open>finish\<close> returns a result with the same accuracy, game
  type, character counts, error count and annotations as the first; the end time and the
  timestamp are read anew at every call, so the duration is the second clock reading minus
  the start time and the timestamp is the second one; when the second call reads the same
  clock values as the first, the results and the sessions are equal.
\<close>

theorem finish_twice:
  "(let (r1, s1) = finish now1 stamp1 s; (r2, s2) = finish now2 stamp2 s1 in
      accuracy r2 = accuracy r1
    \<and> game_type r2 = game_type r1
    \<and> total_characters r2 = total_characters r1
    \<and> correct_characters r2 = correct_characters r1
    \<and> GameResult.error_count r2 = GameResult.error_count r1
    \<and> is_new_record r2 = is_new_record r1
    \<and> previous_best r2 = previous_best r1
    \<and> duration r2 = (if 0 < start_time s then now2 - start_time s else 0)
    \<and> timestamp r2 = stamp2
    \<and> status s2 = COMPLETED \<and> status s1 = COMPLETED)
   \<and> finish now stamp (snd (finish now stamp s)) = finish now stamp s"
proof -
  have r2: "fst (finish now2 stamp2 (snd (finish now1 stamp1 s))) =
          (fst (finish now1 stamp1 s))
            \<lparr>wpm := calculate_wpm (take (current_word_index s) (typed_words s))
                      (take (current_word_index s) (target_words s)) (finish_elapsed now2 s),
             duration := finish_elapsed now2 s, timestamp := stamp2\<rparr>"
    by (subst finish_snd) (simp add: finish_fst finish_elapsed_again)
  have st: "status (snd (finish a b c)) = COMPLETED" for a b c
    by (simp add: finish_snd)
  show ?thesis
    unfolding Let_def case_prod_beta r2
    by (simp add: st finish_same_clock finish_elapsed_def)
qed

text \<open>
  The claim as stated fails: a completed session finished at 160 s and again at 220 s
  (timer started at 100 s) yields durations 60 and 120.
\<close>

theorem finish_twice_counterexample:
  "status (snd (process_input 100 (started_phrase_game [''ab'']) ''ab'' True)) = COMPLETED
   \<and> duration (fst (finish 160
         \<lparr>year = 2026, month = 1, day = 15, hour = 12, minute = 0, second = 0,
           microsecond = 0, tzinfo = timezone_utc\<rparr>
        (snd (process_input 100 (started_phrase_game [''ab'']) ''ab'' True)))) = 60
   \<and> duration (fst (finish 220
         \<lparr>year = 2026, month = 1, day = 15, hour = 12, minute = 0, second = 0,
           microsecond = 0, tzinfo = timezone_utc\<rparr>
        (snd (finish 160
         \<lparr>year = 2026, month = 1, day = 15, hour = 12, minute = 0, second = 0,
           microsecond = 0, tzinfo = timezone_utc\<rparr>
        (snd (process_input 100 (started_phrase_game [''ab'']) ''ab'' True)))))) = 120"
proof -
  define s where "s = snd (process_input 100 (started_phrase_game [''ab'']) ''ab'' True)"
  have facts: "status s = COMPLETED" "start_time s = 100"
    unfolding s_def by code_simp+
  show ?thesis
    unfolding s_def [symmetric]
    by (simp add: facts finish_snd finish_fst finish_elapsed_def)
qed

text \<open>
  C6 (amended). A call of \<open>process_input\<close> on a session that is not ACTIVE, other than
  one with non-empty text while the timer has not started, returns the inactive response
  and leaves the session as it was; in particular a finished session whose timer has
  started is never moved back to ACTIVE.
\<close>

theorem process_input_inactive:
  "(status s \<noteq> ACTIVE \<and> \<not> (start_time s = 0 \<and> inp \<noteq> []) \<longrightarrow>
      process_input now s inp c = (Inactive, s)
    \<and> response_status (fst (process_input now s inp c)) = ''inactive'')
   \<and> (is_finished s \<and> start_time s \<noteq> 0 \<longrightarrow>
        process_input now s inp c = (Inactive, s))"
  by (auto simp: process_input_def is_finished_def)

theorem process_input_inactive_witness:
  "is_finished (cancel (snd (process_input 100 (started_phrase_game [''ab'']) ''a'' False)))
   \<and> start_time (cancel (snd (process_input 100 (started_phrase_game [''ab'']) ''a'' False))) \<noteq> 0
   \<and> process_input 101
        (cancel (snd (process_input 100 (started_phrase_game [''ab'']) ''a'' False))) ''b'' False
      = (Inactive, cancel (snd (process_input 100 (started_phrase_game [''ab'']) ''a'' False)))"
proof -
  define s where "s = cancel (snd (process_input 100 (started_phrase_game [''ab'']) ''a'' False))"
  have facts: "is_finished s" "start_time s = 100"
    unfolding s_def by code_simp+
  show ?thesis
    using process_input_inactive [of s "''b''" 101 False] facts
    unfolding s_def [symmetric] by simp
qed

text \<open>
  The last part of the claim as stated fails: a session cancelled before any input
  (timer not started) becomes ACTIVE again at the first non-empty input.
\<close>

theorem process_input_inactive_counterexample:
  "status (cancel (started_phrase_game [''ab''])) = CANCELLED
   \<and> status (snd (process_input 100 (cancel (started_phrase_game [''ab''])) ''a'' False)) = ACTIVE"
  by code_simp

section \<open>Properties of the router\<close>

lemma apply_selection_op_in_range:
  "selection_in_range r \<Longrightarrow> selection_in_range (apply_selection_op r op)"
  by (cases op)
     (auto simp: selection_in_range_def select_game_def navigate_game_selection_def
        return_to_main_menu_def AVAILABLE_GAMES_def Let_def split: option.splits)

lemma foldl_selection_in_range:
  "selection_in_range r \<Longrightarrow> selection_in_range (foldl apply_selection_op r ops)"
  by (induction ops arbitrary: r) (simp_all add: apply_selection_op_in_range)

text \<open>
  C10. The selected index stays within [0, number of games): a router starts at 0;
  \<open>select_game\<close> with an out-of-range index returns false and leaves the router unchanged,
  and with an in-range index selects it; \<open>navigate_game_selection\<close> with any integer
  delta yields an in-range index, the sum modulo the catalog size; \<open>return_to_main_menu\<close>
  resets the index to 0; so every sequence of these operations keeps the index in range.
\<close>

theorem selected_game_index_in_range:
  "selection_in_range (init_router repo)
   \<and> (\<not> (0 \<le> index \<and> index < int (length AVAILABLE_GAMES)) \<longrightarrow> select_game r index = (False, r))
   \<and> (0 \<le> index \<and> index < int (length AVAILABLE_GAMES) \<longrightarrow>
        select_game r index = (True, r\<lparr>selected_game_index := index\<rparr>))
   \<and> selection_in_range (navigate_game_selection r direction)
   \<and> selected_game_index (navigate_game_selection r direction) =
        (selected_game_index r + direction) mod int (length AVAILABLE_GAMES)
   \<and> selected_game_index (return_to_main_menu r) = 0
   \<and> (selection_in_range r \<longrightarrow> selection_in_range (foldl apply_selection_op r ops))"
proof -
  have a: "selection_in_range (init_router repo)"
    by (simp add: selection_in_range_def init_router_def AVAILABLE_GAMES_def)
  have b: "selection_in_range (navigate_game_selection r direction)"
    by (simp add: selection_in_range_def navigate_game_selection_def AVAILABLE_GAMES_def)
  have c: "selected_game_index (return_to_main_menu r) = 0"
    by (simp add: return_to_main_menu_def Let_def split: option.splits)
  have d: "selected_game_index (navigate_game_selection r direction) =
        (selected_game_index r + direction) mod int (length AVAILABLE_GAMES)"
    by (simp add: navigate_game_selection_def)
  show ?thesis
    using a b c d foldl_selection_in_range [of r ops]
    by (simp add: select_game_def)
qed

theorem selected_game_index_in_range_witness:
  "\<not> (0 \<le> (10::int) \<and> (10::int) < int (length AVAILABLE_GAMES))
   \<and> select_game (init_router ([]::GameResult list)) 10 = (False, init_router [])
   \<and> (0 \<le> (1::int) \<and> (1::int) < int (length AVAILABLE_GAMES))
   \<and> selected_game_index (snd (select_game (init_router ([]::GameResult list)) 1)) = 1
   \<and> selection_in_range (init_router ([]::GameResult list))
   \<and> selection_in_range (foldl apply_selection_op (init_router ([]::GameResult list))
        [Navigate (- 1), Select 7, Navigate 5, ReturnToMainMenu, Navigate (- 3)])"
  using selected_game_index_in_range [of "[]::GameResult list" 10
          "init_router ([]::GameResult list)" 0
          "[Navigate (- 1), Select 7, Navigate 5, ReturnToMainMenu, Navigate (- 3)]"]
        selected_game_index_in_range [of "[]::GameResult list" 1
          "init_router ([]::GameResult list)" 0 "[]"]
  by (auto simp: AVAILABLE_GAMES_def)

lemma max_by_wpm_mem: "max_by_wpm b rs \<in> set (b # rs)"
  by (induction rs arbitrary: b) (auto split: if_splits)

lemma max_by_wpm_ge_start: "wpm b \<le> wpm (max_by_wpm b rs)"
proof (induction rs arbitrary: b)
  case Nil
  then show ?case by simp
next
  case (Cons r rs)
  have "wpm b \<le> wpm (if wpm b < wpm r then r else b)" by simp
  also have "\<dots> \<le> wpm (max_by_wpm (if wpm b < wpm r then r else b) rs)" by (rule Cons.IH)
  finally show ?case by simp
qed

lemma max_by_wpm_ge_all: "x \<in> set (b # rs) \<Longrightarrow> wpm x \<le> wpm (max_by_wpm b rs)"
proof (induction rs arbitrary: b)
  case Nil
  then show ?case by simp
next
  case (Cons r rs)
  let ?c = "if wpm b < wpm r then r else b"
  have start: "wpm ?c \<le> wpm (max_by_wpm ?c rs)" by (rule max_by_wpm_ge_start)
  from Cons.prems consider "x = b" | "x = r" | "x \<in> set rs" by auto
  then show ?case
  proof cases
    case 1
    have "wpm b \<le> wpm ?c" by simp
    with start 1 show ?thesis by simp
  next
    case 2
    have "wpm r \<le> wpm ?c" by simp
    with start 2 show ?thesis by simp
  next
    case 3
    then have "x \<in> set (?c # rs)" by simp
    then have "wpm x \<le> wpm (max_by_wpm ?c rs)" by (rule Cons.IH)
    then show ?thesis by simp
  qed
qed

text \<open>
  C4. \<open>finish_game\<close> returns absent when no session is installed; otherwise it finishes
  the session, asks the store for the best result before saving, stamps the result with
  is\_new\_record = (wpm > 0 and (no previous best or wpm > previous best's wpm)) and
  previous\_best = the prior best's wpm or absent, saves the stamped result and returns
  it; with the in-memory store the stamped result is appended to the results held before;
  in particular a first session with positive wpm is a new record with no previous best.
\<close>

theorem finish_game_stamps_and_saves:
  "(current_game r = None \<longrightarrow> finish_game repo now stamp r = Inr (None, r))
   \<and> (let res = (fst (finish now stamp g))
                   \<lparr>is_new_record :=
                      (0 < wpm (fst (finish now stamp g))
                       \<and> (best = None
                          \<or> (\<exists>b. best = Some b \<and> wpm b < wpm (fst (finish now stamp g))))),
                    previous_best := map_option wpm best\<rparr>
      in (current_game r = Some g
          \<and> get_best repo (history_repository r) = Inr (best, h)
          \<and> save repo res h = Inr h'
          \<longrightarrow> finish_game repo now stamp r =
                Inr (Some res,
                     r\<lparr>current_game := Some (snd (finish now stamp g)),
                       history_repository := h'\<rparr>))
       \<and> (best = None \<and> 0 < wpm (fst (finish now stamp g))
          \<longrightarrow> is_new_record res \<and> previous_best res = None))
   \<and> (let res = (fst (finish now stamp g))
                   \<lparr>is_new_record :=
                      (0 < wpm (fst (finish now stamp g))
                       \<and> (best_of results = None
                          \<or> (\<exists>b. best_of results = Some b
                                 \<and> wpm b < wpm (fst (finish now stamp g))))),
                    previous_best := map_option wpm (best_of results)\<rparr>
      in (current_game m = Some g \<and> history_repository m = results
          \<longrightarrow> finish_game InMemoryHistoryRepository now stamp m =
                Inr (Some res,
                     m\<lparr>current_game := Some (snd (finish now stamp g)),
                       history_repository := results @ [res]\<rparr>)))"
proof -
  have nr: "(case best of None \<Rightarrow> True | Some b \<Rightarrow> wpm b < x) =
            (best = None \<or> (\<exists>b. best = Some b \<and> wpm b < x))" for best :: "GameResult option" and x
    by (cases best) simp_all
  have pb: "(case best of Some b \<Rightarrow> Some (wpm b) | None \<Rightarrow> None) = map_option wpm best"
    for best :: "GameResult option"
    by (cases best) simp_all
  have a: "current_game r = None \<longrightarrow> finish_game repo now stamp r = Inr (None, r)"
    by (simp add: finish_game_def)
  show ?thesis
    unfolding Let_def
    apply (intro conjI impI)
    subgoal by (simp add: finish_game_def)
    subgoal by (simp add: finish_game_def Let_def case_prod_beta nr pb)
    subgoal by simp
    subgoal by simp
    subgoal
      by (simp add: finish_game_def Let_def case_prod_beta nr pb InMemoryHistoryRepository_def
          memory_get_best_def memory_save_def)
    done
qed

theorem finish_game_stamps_and_saves_witness:
  "current_game
       \<lparr>history_repository = ([]::GameResult list),
          current_game = Some (snd (process_input 100 (started_phrase_game [''ab'']) ''ab'' True)),
          selected_game_index = 0\<rparr> = Some (snd (process_input 100 (started_phrase_game [''ab'']) ''ab'' True))
   \<and> get_best InMemoryHistoryRepository (history_repository
       \<lparr>history_repository = ([]::GameResult list),
          current_game = Some (snd (process_input 100 (started_phrase_game [''ab'']) ''ab'' True)),
          selected_game_index = 0\<rparr>) = Inr (None, [])
   \<and> 0 < wpm (fst (finish 160
         \<lparr>year = 2026, month = 1, day = 15, hour = 12, minute = 0, second = 0,
           microsecond = 0, tzinfo = timezone_utc\<rparr>
         (snd (process_input 100 (started_phrase_game [''ab'']) ''ab'' True))))
   \<and> (case finish_game InMemoryHistoryRepository 160
         \<lparr>year = 2026, month = 1, day = 15, hour = 12, minute = 0, second = 0,
           microsecond = 0, tzinfo = timezone_utc\<rparr>
         \<lparr>history_repository = ([]::GameResult list),
          current_game = Some (snd (process_input 100 (started_phrase_game [''ab'']) ''ab'' True)),
          selected_game_index = 0\<rparr> of
         Inr (Some res, r') \<Rightarrow>
           is_new_record res \<and> previous_best res = None \<and> history_repository r' = [res]
           \<and> wpm res = 2 / 5
       | _ \<Rightarrow> False)"
proof -
  define g where "g = (snd (process_input 100 (started_phrase_game [''ab'']) ''ab'' True))"
  define stamp where "stamp = \<lparr>year = 2026, month = 1, day = 15, hour = 12, minute = 0, second = 0,
           microsecond = 0, tzinfo = timezone_utc\<rparr>"
  define r where "r = \<lparr>history_repository = ([]::GameResult list), current_game = Some g,
                        selected_game_index = 0\<rparr>"
  have w: "wpm (fst (finish 160 stamp g)) = 2 / 5"
    unfolding g_def stamp_def by code_simp
  have facts: "current_game r = Some g" "history_repository r = []"
    "get_best InMemoryHistoryRepository [] = Inr (None, [])"
    by (simp_all add: r_def InMemoryHistoryRepository_def memory_get_best_def best_of_def)
  show ?thesis
    using finish_game_stamps_and_saves [where r = r and g = g and now = 160 and stamp = stamp
            and repo = InMemoryHistoryRepository and best = None and h = "[]"
            and h' = "[(fst (finish 160 stamp g))\<lparr>is_new_record := True, previous_best := None\<rparr>]"
            and m = r and results = "[]"]
          w facts
    unfolding g_def [symmetric] stamp_def [symmetric] r_def [symmetric]
    by (simp add: Let_def InMemoryHistoryRepository_def memory_save_def best_of_def)
qed

end
